theory Spec2Isabelle
  imports Complex_Main "HOL-Library.Sublist"
begin

section \<open>System generators: data model\<close>

text \<open>
  The development follows \<^verbatim>\<open>openmmforcefields/generators/system_generators.py\<close>.
  Exceptions are values: a function that can raise returns \<open>error + 'a\<close>, with \<open>Inl\<close>
  for the exception.
\<close>

datatype error =
    ValueError string
  | IndexError
  | NameError string
  | ExternalError string

text \<open>
  The Topology is owned by a collaborator; its declaration is not part of the module.
  It is taken as the design describes it: atoms carry dense zero-based indices, and a bond is
  a pair \<open>(atom1, atom2)\<close> of atom indices. \<open>num_atoms\<close> is the length of
  \<^verbatim>\<open>topology.atoms()\<close>, \<open>bonds\<close> is \<^verbatim>\<open>topology.bonds()\<close> in iteration order.
\<close>

record topology =
  num_atoms :: nat
  bonds :: "(nat \<times> nat) list"

section \<open>DummySystemGenerator: the list of bonded neighbours (lines 342--348)\<close>

text \<open>
  \<^verbatim>\<open>bondedToAtom\<close> is a Python list of sets. Indexing the list with an index that is
  not below its length raises \<^verbatim>\<open>IndexError\<close>; the two \<^verbatim>\<open>add\<close> calls of one bond run in
  order, so the second lookup sees the first update.
\<close>

fun add_bonds :: "(nat \<times> nat) list \<Rightarrow> nat set list \<Rightarrow> error + nat set list" where
  "add_bonds [] adj = Inr adj"
| "add_bonds ((atom1, atom2) # bs) adj =
     (if atom1 < length adj then
        (let adj1 = adj[atom1 := insert atom2 (adj ! atom1)] in
         if atom2 < length adj1 then
           add_bonds bs (adj1[atom2 := insert atom1 (adj1 ! atom2)])
         else Inl IndexError)
      else Inl IndexError)"

definition bondedToAtom :: "topology \<Rightarrow> error + nat set list" where
  "bondedToAtom topology = add_bonds (bonds topology) (replicate (num_atoms topology) {})"

section \<open>The particle system\<close>

text \<open>
  A parameter value of a force term is an IEEE double: a finite value, an infinity, or
  NaN. A finite value is given by the real number it stands for; the sign of a zero is not
  kept, since Python compares both zeros equal. \<open>times_zero\<close> is the statement
  \<^verbatim>\<open>x *= 0\<close>: a finite value becomes zero, an infinity or NaN becomes NaN.
\<close>

datatype pyfloat = Finite real | PlusInfinity | MinusInfinity | NaN

fun times_zero :: "pyfloat \<Rightarrow> pyfloat" where
  "times_zero (Finite x) = Finite (x * 0)"
| "times_zero PlusInfinity = NaN"
| "times_zero MinusInfinity = NaN"
| "times_zero NaN = NaN"

text \<open>
  The System and its forces belong to the Engine. A force is identified by its class name
  (\<^verbatim>\<open>force.__class__.__name__\<close>); the constructors below are the class names the module
  mentions, with the per-term parameter tuples in the order of the Engine's getters.
  Particle masses and the barostat settings are only copied, never computed with; they are
  real numbers.
\<close>

datatype force =
    NonbondedForce "(pyfloat \<times> pyfloat \<times> pyfloat) list"
                   "(nat \<times> nat \<times> pyfloat \<times> pyfloat \<times> pyfloat) list"
  | PeriodicTorsionForce "(nat \<times> nat \<times> nat \<times> nat \<times> int \<times> pyfloat \<times> pyfloat) list"
  | HarmonicBondForce "(nat \<times> nat \<times> pyfloat \<times> pyfloat) list"
  | HarmonicAngleForce "(nat \<times> nat \<times> nat \<times> pyfloat \<times> pyfloat) list"
  | CustomNonbondedForce string nat
  | MonteCarloBarostat real real int int
  | OtherForce string

record system =
  particles :: "real list"
  forces :: "force list"

record barostat_spec =
  pressure :: real
  temperature :: real
  frequency :: int

section \<open>DummySystemGenerator.create\_system (lines 303--349)\<close>

text \<open>
  What a Python call hands back is not fixed by a type: the function's \<^verbatim>\<open>return\<close>
  statements decide it.
\<close>

datatype returned = System system | BondedToAtom "nat set list"

text \<open>
  The names the module itself binds at top level. \<^verbatim>\<open>unit\<close> and \<^verbatim>\<open>openmm\<close> are read as
  globals by \<^verbatim>\<open>create_system\<close>; reading an unbound global raises \<^verbatim>\<open>NameError\<close>.
  The namespace is an argument of the model, so that a caller who has bound the two names
  is covered as well.
\<close>

definition module_globals :: "string set" where
  "module_globals = {''logging'', ''_logger'', ''SystemGenerator'', ''DummySystemGenerator''}"

text \<open>
  The body up to its first \<^verbatim>\<open>return\<close>, which is line 349: the System with its particles and
  the repulsive force is built into the local \<^verbatim>\<open>system\<close>, the neighbour list is built, and
  the neighbour list is returned. The statements after line 349 are never run: the bond
  force, the enumeration of the angles (lines 361--375), the angle force, the enumeration of
  the proper torsions (lines 385--399) and the torsion force. They have no part in what the
  function computes, and no definition here.
  Lines 330 and 339 iterate \<^verbatim>\<open>topology.atoms\<close> and line 344 iterates
  \<^verbatim>\<open>topology.atoms()\<close>; both are taken to run once over the atoms, which is the most
  the function can do: where \<^verbatim>\<open>atoms\<close> is a plain method, as in the Engine's own Topology
  class, line 330 raises \<^verbatim>\<open>TypeError\<close> before a neighbour is recorded. The mass is 12 amu.
\<close>

definition dummy_create_system :: "string set \<Rightarrow> topology \<Rightarrow> error + returned" where
  "dummy_create_system globals topology =
     (if ''unit'' \<notin> globals then Inl (NameError ''unit'')
      else if ''openmm'' \<notin> globals then Inl (NameError ''openmm'')
      else
        (let system = \<lparr>particles = replicate (num_atoms topology) 12,
                        forces = [CustomNonbondedForce ''100/(r/0.1)^4'' (num_atoms topology)]\<rparr>
         in case bondedToAtom topology of
              Inl e \<Rightarrow> Inl e
            | Inr adj \<Rightarrow> Inr (BondedToAtom adj)))"

section \<open>SystemGenerator\<close>

subsection \<open>Collaborators\<close>

text \<open>
  A template generator class, as the constructor of \<^verbatim>\<open>SystemGenerator\<close> uses it: its
  \<^verbatim>\<open>__name__\<close>, its \<^verbatim>\<open>INSTALLED_FORCEFIELDS\<close>, and its constructor called with
  \<^verbatim>\<open>forcefield=\<close> and \<^verbatim>\<open>cache=\<close>. The instance type \<open>'tg\<close> is left open.
\<close>

record 'tg template_generator_cls =
  cls_name :: string
  INSTALLED_FORCEFIELDS :: "string list"
  construct :: "string \<Rightarrow> string option \<Rightarrow> error + 'tg"

text \<open>
  \<open>subclasses\<close> is \<^verbatim>\<open>SmallMoleculeTemplateGenerator.__subclasses__()\<close> in its order;
  \<open>tg_add_molecules\<close> is the instance method \<^verbatim>\<open>add_molecules\<close> of a template generator;
  \<open>ForceField\<close> is the Engine's constructor \<^verbatim>\<open>app.ForceField(*forcefields)\<close>, which raises
  when it cannot load one of the files; \<open>createSystem\<close> is \<^verbatim>\<open>ForceField.createSystem\<close>,
  which sees the ForceField object, the registered template generator, the topology and the
  keyword arguments. The type \<open>'ff\<close> of the ForceField object is left open. A molecule is
  given by a string (a SMILES string, say).
\<close>

record ('tg, 'ff) collaborators =
  subclasses :: "'tg template_generator_cls list"
  tg_add_molecules :: "'tg \<Rightarrow> string list option \<Rightarrow> error + 'tg"
  ForceField :: "string list \<Rightarrow> error + 'ff"
  createSystem ::
    "'ff \<Rightarrow> 'tg option \<Rightarrow> topology \<Rightarrow> (string \<times> string) list \<Rightarrow> error + system"

subsection \<open>The generator object\<close>

text \<open>The attributes set by \<^verbatim>\<open>__init__\<close>.\<close>

record ('tg, 'ff) system_generator =
  barostat :: "barostat_spec option"
  particle_charges :: bool
  exception_charges :: bool
  particle_epsilons :: bool
  exception_epsilons :: bool
  torsions :: bool
  postprocess_system :: "(system \<Rightarrow> error + system) option"
  forcefield :: 'ff
  forcefield_kwargs :: "(string \<times> string) list"
  template_generator :: "'tg option"

subsection \<open>add\_molecules (lines 180--196)\<close>

definition add_molecules ::
  "('tg, 'ff) collaborators \<Rightarrow> ('tg, 'ff) system_generator \<Rightarrow> string list option \<Rightarrow>
   error + ('tg, 'ff) system_generator"
where
  "add_molecules env self molecules =
     (case template_generator self of
        None \<Rightarrow> Inl (ValueError
          ''You must have a small molecule residue template generator registered to add small molecules'')
      | Some tg \<Rightarrow>
          (case tg_add_molecules env tg molecules of
             Inl e \<Rightarrow> Inl e
           | Inr tg' \<Rightarrow> Inr (self\<lparr>template_generator := Some tg'\<rparr>)))"

subsection \<open>The constructor (lines 137--178)\<close>

text \<open>
  The arguments \<open>kwargs_arg\<close>, \<open>barostat_arg\<close> and \<open>postprocess_arg\<close> of \<open>init\<close> below are
  the source's \<^verbatim>\<open>forcefield_kwargs\<close>, \<^verbatim>\<open>barostat\<close> and \<^verbatim>\<open>postprocess_system\<close>, which
  are attribute names here.

  The probing loop of lines 162--168: each class is tried in turn; a \<^verbatim>\<open>ValueError\<close> is
  logged and the loop goes on, any other exception leaves the loop, and a successful
  construction is assigned to \<^verbatim>\<open>self.template_generator\<close>, replacing an earlier one.
\<close>

fun probe ::
  "'tg template_generator_cls list \<Rightarrow> string \<Rightarrow> string option \<Rightarrow> 'tg option \<Rightarrow> error + 'tg option"
where
  "probe [] small_molecule_forcefield cache tg = Inr tg"
| "probe (c # cs) small_molecule_forcefield cache tg =
     (case construct c small_molecule_forcefield cache of
        Inr tg' \<Rightarrow> probe cs small_molecule_forcefield cache (Some tg')
      | Inl (ValueError e) \<Rightarrow> probe cs small_molecule_forcefield cache tg
      | Inl e \<Rightarrow> Inl e)"

text \<open>
  Python's \<^verbatim>\<open>repr\<close> of a string, which the f-string of line 173 applies to every element
  of the list \<^verbatim>\<open>INSTALLED_FORCEFIELDS\<close>. A \<open>char\<close> is a code point below 256.

  The quote is the double quote when the string holds a single quote and no double quote,
  and the single quote otherwise. The quote and the backslash are written with a backslash
  before them; tab, line feed and carriage return as \<^verbatim>\<open>\t\<close>, \<^verbatim>\<open>\n\<close>, \<^verbatim>\<open>\r\<close>; any other
  character that is not printable as \<^verbatim>\<open>\x\<close> and two lower-case hexadecimal digits. Below 256
  the characters that are not printable are the control characters \<open>0x00\<close>--\<open>0x1f\<close> and
  \<open>0x7f\<close>--\<open>0x9f\<close>, the no-break space \<open>0xa0\<close> and the soft hyphen \<open>0xad\<close>.
\<close>

definition printable :: "char \<Rightarrow> bool" where
  "printable c =
     (let n = (of_char c :: nat) in (32 \<le> n \<and> n < 127) \<or> (161 \<le> n \<and> n \<noteq> 173))"

definition hex_digit :: "nat \<Rightarrow> char" where
  "hex_digit n = ''0123456789abcdef'' ! (n mod 16)"

definition escape :: "char \<Rightarrow> char \<Rightarrow> string" where
  "escape quote c =
     (if c = quote \<or> c = CHR 0x5C then [CHR 0x5C, c]
      else if c = CHR 0x09 then [CHR 0x5C, CHR ''t'']
      else if c = CHR 0x0A then [CHR 0x5C, CHR ''n'']
      else if c = CHR 0x0D then [CHR 0x5C, CHR ''r'']
      else if \<not> printable c then
        [CHR 0x5C, CHR ''x'', hex_digit (of_char c div 16), hex_digit (of_char c)]
      else [c])"

definition repr_str :: "string \<Rightarrow> string" where
  "repr_str s =
     (let quote = (if CHR 0x27 \<in> set s \<and> CHR 0x22 \<notin> set s then CHR 0x22 else CHR 0x27)
      in [quote] @ concat (map (escape quote) s) @ [quote])"

text \<open>
  Python's \<^verbatim>\<open>str\<close> of a list of strings: the \<^verbatim>\<open>repr\<close> of each element, separated by a
  comma and a space, in brackets.
\<close>

fun join_comma :: "string list \<Rightarrow> string" where
  "join_comma [] = []"
| "join_comma [s] = s"
| "join_comma (s # t # ts) = s @ '', '' @ join_comma (t # ts)"

definition str_list :: "string list \<Rightarrow> string" where
  "str_list xs = ''['' @ join_comma (map repr_str xs) @ '']''"

text \<open>The message of lines 170--173.\<close>

definition newline :: string where
  "newline = [CHR 0x0A]"

definition installed_line :: "'tg template_generator_cls \<Rightarrow> string" where
  "installed_line c = ''  '' @ cls_name c @ '': '' @ str_list (INSTALLED_FORCEFIELDS c) @ newline"

fun append_installed :: "'tg template_generator_cls list \<Rightarrow> string \<Rightarrow> string" where
  "append_installed [] msg = msg"
| "append_installed (c # cs) msg = append_installed cs (msg @ installed_line c)"

definition no_generator_msg :: "'tg template_generator_cls list \<Rightarrow> string \<Rightarrow> string" where
  "no_generator_msg clss small_molecule_forcefield =
     append_installed clss
       ((''No registered small molecule template generators could load force field ''
           @ [CHR 0x27] @ small_molecule_forcefield @ [CHR 0x27] @ newline)
         @ (''Available installed force fields are:'' @ newline))"

text \<open>
  The constructor. The ForceField object is built at line 153, before the template
  generator classes are probed; an exception of the Engine there ends the construction.
\<close>

definition init ::
  "('tg, 'ff) collaborators \<Rightarrow> string list option \<Rightarrow> string option \<Rightarrow>
   (string \<times> string) list option \<Rightarrow> barostat_spec option \<Rightarrow> string list option \<Rightarrow>
   string option \<Rightarrow> (system \<Rightarrow> error + system) option \<Rightarrow> error + ('tg, 'ff) system_generator"
where
  "init env forcefields small_molecule_forcefield kwargs_arg barostat_arg molecules cache
        postprocess_arg =
     (case ForceField env (case forcefields of Some fs \<Rightarrow> fs | None \<Rightarrow> []) of
        Inl e \<Rightarrow> Inl e
      | Inr ff \<Rightarrow>
          (let self = \<lparr>barostat = barostat_arg,
                       particle_charges = True,
                       exception_charges = True,
                       particle_epsilons = True,
                       exception_epsilons = True,
                       torsions = True,
                       postprocess_system = postprocess_arg,
                       forcefield = ff,
                       forcefield_kwargs = (case kwargs_arg of Some kw \<Rightarrow> kw | None \<Rightarrow> []),
                       template_generator = None\<rparr>
           in case small_molecule_forcefield of
                None \<Rightarrow> add_molecules env self molecules
              | Some name \<Rightarrow>
                  (case probe (subclasses env) name cache None of
                     Inl e \<Rightarrow> Inl e
                   | Inr None \<Rightarrow> Inl (ValueError (no_generator_msg (subclasses env) name))
                   | Inr (Some tg) \<Rightarrow>
                       add_molecules env (self\<lparr>template_generator := Some tg\<rparr>) molecules)))"

subsection \<open>\_modify\_forces (lines 198--245)\<close>

text \<open>
  Each loop reads the parameters of term \<^verbatim>\<open>index\<close>, multiplies the switched-off ones by
  zero, and writes the tuple back at the same index.
\<close>

definition modify_particle ::
  "('tg, 'ff) system_generator \<Rightarrow> pyfloat \<times> pyfloat \<times> pyfloat \<Rightarrow> pyfloat \<times> pyfloat \<times> pyfloat"
where
  "modify_particle self p =
     (case p of (charge, sigma, epsilon) \<Rightarrow>
        (if \<not> particle_charges self then times_zero charge else charge,
         sigma,
         if \<not> particle_epsilons self then times_zero epsilon else epsilon))"

definition modify_exception ::
  "('tg, 'ff) system_generator \<Rightarrow> nat \<times> nat \<times> pyfloat \<times> pyfloat \<times> pyfloat \<Rightarrow>
   nat \<times> nat \<times> pyfloat \<times> pyfloat \<times> pyfloat"
where
  "modify_exception self x =
     (case x of (p1, p2, chargeProd, sigma, epsilon) \<Rightarrow>
        (p1, p2,
         if \<not> exception_charges self then times_zero chargeProd else chargeProd,
         sigma,
         if \<not> exception_epsilons self then times_zero epsilon else epsilon))"

definition modify_torsion ::
  "('tg, 'ff) system_generator \<Rightarrow> nat \<times> nat \<times> nat \<times> nat \<times> int \<times> pyfloat \<times> pyfloat \<Rightarrow>
   nat \<times> nat \<times> nat \<times> nat \<times> int \<times> pyfloat \<times> pyfloat"
where
  "modify_torsion self t =
     (case t of (p1, p2, p3, p4, periodicity, phase, K) \<Rightarrow>
        (p1, p2, p3, p4, periodicity, phase, if \<not> torsions self then times_zero K else K))"

fun modify_force :: "('tg, 'ff) system_generator \<Rightarrow> force \<Rightarrow> force" where
  "modify_force self (NonbondedForce ps xs) =
     NonbondedForce (map (modify_particle self) ps) (map (modify_exception self) xs)"
| "modify_force self (PeriodicTorsionForce ts) =
     PeriodicTorsionForce (map (modify_torsion self) ts)"
| "modify_force self force = force"

text \<open>
  \<open>seed\<close> is the value drawn by \<^verbatim>\<open>np.random.randint(MAXINT)\<close>; the draw is made by the
  caller of the model.
\<close>

definition modify_forces :: "('tg, 'ff) system_generator \<Rightarrow> int \<Rightarrow> system \<Rightarrow> system" where
  "modify_forces self seed system =
     (let system1 =
        (case barostat self of
           None \<Rightarrow> system
         | Some b \<Rightarrow>
             system\<lparr>forces := forces system
               @ [MonteCarloBarostat (pressure b) (temperature b) (frequency b) seed]\<rparr>)
      in system1\<lparr>forces := map (modify_force self) (forces system1)\<rparr>)"

subsection \<open>create\_system (lines 247--283)\<close>

text \<open>
  The result is the returned System or the exception, together with the generator after the
  call: the template generator is the only attribute the call can change.
\<close>

definition create_system ::
  "('tg, 'ff) collaborators \<Rightarrow> ('tg, 'ff) system_generator \<Rightarrow> int \<Rightarrow> topology \<Rightarrow>
   string list option \<Rightarrow> (error + system) \<times> ('tg, 'ff) system_generator"
where
  "create_system env self seed topology molecules =
     (case (case (template_generator self, molecules) of
              (Some tg, Some ms) \<Rightarrow>
                (case tg_add_molecules env tg (Some ms) of
                   Inl e \<Rightarrow> Inl e
                 | Inr tg' \<Rightarrow> Inr (self\<lparr>template_generator := Some tg'\<rparr>))
            | _ \<Rightarrow> Inr self) of
        Inl e \<Rightarrow> (Inl e, self)
      | Inr self1 \<Rightarrow>
          (case createSystem env (forcefield self1) (template_generator self1) topology
                  (forcefield_kwargs self1) of
             Inl e \<Rightarrow> (Inl e, self1)
           | Inr system \<Rightarrow>
               (let system1 = modify_forces self1 seed system in
                case postprocess_system self1 of
                  None \<Rightarrow> (Inr system1, self1)
                | Some hook \<Rightarrow>
                    (case hook system1 of
                       Inl e \<Rightarrow> (Inl e, self1)
                     | Inr system2 \<Rightarrow> (Inr system2, self1)))))"

section \<open>Concrete inputs\<close>

text \<open>
  The chain of four atoms 0--1--2--3, the same chain with its bonds listed in another order
  and each one turned round, and the neighbour sets of the chain.
\<close>

definition chain4 :: topology where
  "chain4 = \<lparr>num_atoms = 4, bonds = [(0, 1), (1, 2), (2, 3)]\<rparr>"

definition chain4_reversed :: topology where
  "chain4_reversed = \<lparr>num_atoms = 4, bonds = [(3, 2), (1, 0), (2, 1)]\<rparr>"

definition chain4_neighbours :: "nat set list" where
  "chain4_neighbours = [{1}, {0, 2}, {1, 3}, {2}]"

text \<open>The ring of three atoms, and the namespace with the two missing names bound.\<close>

definition ring3 :: topology where
  "ring3 = \<lparr>num_atoms = 3, bonds = [(0, 1), (1, 2), (2, 0)]\<rparr>"

definition bound_globals :: "string set" where
  "bound_globals = insert ''unit'' (insert ''openmm'' module_globals)"

text \<open>
  A stand-in for the collaborators, used to run the definitions: a template generator
  instance records its class, force field, cache and molecules; a class accepts the
  identifiers it lists and raises \<^verbatim>\<open>ValueError\<close> on any other; the ForceField object is the
  list of its files, and building it raises \<^verbatim>\<open>ValueError\<close> for the first file that is not
  known; the Engine returns a fixed System whatever it is given.
\<close>

record tg_instance =
  tg_cls :: string
  tg_forcefield :: string
  tg_cache :: "string option"
  tg_molecules :: "string list"

definition example_cls :: "string \<Rightarrow> string list \<Rightarrow> tg_instance template_generator_cls" where
  "example_cls name installed =
     \<lparr>cls_name = name,
      INSTALLED_FORCEFIELDS = installed,
      construct = (\<lambda>ff cache.
        if ff \<in> set installed
        then Inr \<lparr>tg_cls = name, tg_forcefield = ff, tg_cache = cache, tg_molecules = []\<rparr>
        else Inl (ValueError ff))\<rparr>"

definition GAFFTemplateGenerator :: "tg_instance template_generator_cls" where
  "GAFFTemplateGenerator =
     example_cls ''GAFFTemplateGenerator''
       [''gaff-2.11'', ''gaff-2.1'', ''gaff-1.81'', ''gaff-1.8'', ''gaff-1.4'']"

definition SMIRNOFFTemplateGenerator :: "tg_instance template_generator_cls" where
  "SMIRNOFFTemplateGenerator =
     example_cls ''SMIRNOFFTemplateGenerator'' [''openff-1.0.0'', ''smirnoff99Frosst-1.1.0'']"

definition known_files :: "string list" where
  "known_files = [''amber/protein.ff14SB.xml'', ''amber/tip3p_standard.xml'']"

definition example_ForceField :: "string list \<Rightarrow> error + string list" where
  "example_ForceField files =
     (case filter (\<lambda>f. f \<notin> set known_files) files of
        [] \<Rightarrow> Inr files
      | f # fs \<Rightarrow> Inl (ValueError (''Could not locate file '' @ [CHR 0x22] @ f @ [CHR 0x22])))"

definition example_system :: system where
  "example_system =
     \<lparr>particles = [12, 12, 12, 12],
      forces = [NonbondedForce [(Finite 1, Finite 2, Finite 3), (Finite (-1), Finite 2, Finite 3)]
                               [(0, 3, Finite (-1), Finite 2, Finite 3)],
                HarmonicBondForce [(0, 1, Finite 1, Finite 5), (1, 2, Finite 1, Finite 5),
                                   (2, 3, Finite 1, Finite 5)],
                HarmonicAngleForce [(0, 1, 2, Finite 2, Finite 6), (1, 2, 3, Finite 2, Finite 6)],
                PeriodicTorsionForce [(0, 1, 2, 3, 3, Finite 0, Finite 7)]]\<rparr>"

definition example_env_with ::
  "tg_instance template_generator_cls list \<Rightarrow> system \<Rightarrow> (tg_instance, string list) collaborators"
where
  "example_env_with clss assembled =
     \<lparr>subclasses = clss,
      tg_add_molecules = (\<lambda>tg ms.
        Inr (tg\<lparr>tg_molecules := tg_molecules tg @ (case ms of None \<Rightarrow> [] | Some m \<Rightarrow> m)\<rparr>)),
      ForceField = example_ForceField,
      createSystem = (\<lambda>ff tg topology kw. Inr assembled)\<rparr>"

definition example_env ::
  "tg_instance template_generator_cls list \<Rightarrow> (tg_instance, string list) collaborators"
where
  "example_env clss = example_env_with clss example_system"

definition example_generator :: "(tg_instance, string list) system_generator" where
  "example_generator =
     \<lparr>barostat = None,
      particle_charges = True,
      exception_charges = True,
      particle_epsilons = True,
      exception_epsilons = True,
      torsions = True,
      postprocess_system = None,
      forcefield = [''amber/protein.ff14SB.xml''],
      forcefield_kwargs = [],
      template_generator = None\<rparr>"

text \<open>A finishing hook that gives every periodic torsion the barrier height 1.\<close>

fun raise_barriers :: "force \<Rightarrow> force" where
  "raise_barriers (PeriodicTorsionForce ts) =
     PeriodicTorsionForce (map (\<lambda>(p1, p2, p3, p4, periodicity, phase, K).
       (p1, p2, p3, p4, periodicity, phase, Finite 1)) ts)"
| "raise_barriers force = force"

definition example_hook :: "system \<Rightarrow> error + system" where
  "example_hook system = Inr (system\<lparr>forces := map raise_barriers (forces system)\<rparr>)"

text \<open>The generator that the constructor builds for GAFF 2.11 and one molecule.\<close>

definition gaff_generator :: "(tg_instance, string list) system_generator" where
  "gaff_generator =
     \<lparr>barostat = None,
      particle_charges = True,
      exception_charges = True,
      particle_epsilons = True,
      exception_epsilons = True,
      torsions = True,
      postprocess_system = None,
      forcefield = [''amber/protein.ff14SB.xml''],
      forcefield_kwargs = [],
      template_generator = Some \<lparr>tg_cls = ''GAFFTemplateGenerator'', tg_forcefield = ''gaff-2.11'',
        tg_cache = None, tg_molecules = [''CCO'']\<rparr>\<rparr>"

text \<open>The message for the misspelt identifier \<^verbatim>\<open>gaff-3.0\<close>, written out.\<close>

definition typo_msg :: string where
  "typo_msg =
     ''No registered small molecule template generators could load force field ''
       @ [CHR 0x27] @ ''gaff-3.0'' @ [CHR 0x27] @ newline
       @ ''Available installed force fields are:'' @ newline
       @ ''  GAFFTemplateGenerator: ['' @ [CHR 0x27] @ ''gaff-2.11'' @ [CHR 0x27] @ '', ''
       @ [CHR 0x27] @ ''gaff-2.1'' @ [CHR 0x27] @ '', ''
       @ [CHR 0x27] @ ''gaff-1.81'' @ [CHR 0x27] @ '', ''
       @ [CHR 0x27] @ ''gaff-1.8'' @ [CHR 0x27] @ '', ''
       @ [CHR 0x27] @ ''gaff-1.4'' @ [CHR 0x27] @ '']'' @ newline
       @ ''  SMIRNOFFTemplateGenerator: ['' @ [CHR 0x27] @ ''openff-1.0.0'' @ [CHR 0x27] @ '', ''
       @ [CHR 0x27] @ ''smirnoff99Frosst-1.1.0'' @ [CHR 0x27] @ '']'' @ newline"

text \<open>The Engine's message for a force-field file it cannot find.\<close>

definition missing_file_msg :: string where
  "missing_file_msg = ''Could not locate file '' @ [CHR 0x22] @ ''missing.xml'' @ [CHR 0x22]"

text \<open>Three classes, of which the first and the third accept \<^verbatim>\<open>ff-b\<close>.\<close>

definition three_classes :: "tg_instance template_generator_cls list" where
  "three_classes =
     [example_cls ''FirstGenerator'' [''ff-a'', ''ff-b''],
      example_cls ''SecondGenerator'' [''ff-c''],
      example_cls ''ThirdGenerator'' [''ff-b'']]"

text \<open>
  The stand-in generator with the torsion flag switched off: once with the finishing hook,
  once without, and the System that the latter returns.
\<close>

definition hooked_generator :: "(tg_instance, string list) system_generator" where
  "hooked_generator = example_generator\<lparr>torsions := False, postprocess_system := Some example_hook\<rparr>"

definition ablated_generator :: "(tg_instance, string list) system_generator" where
  "ablated_generator = example_generator\<lparr>torsions := False\<rparr>"

definition ablated_system :: system where
  "ablated_system =
     \<lparr>particles = [12, 12, 12, 12],
      forces = [NonbondedForce [(Finite 1, Finite 2, Finite 3), (Finite (-1), Finite 2, Finite 3)]
                               [(0, 3, Finite (-1), Finite 2, Finite 3)],
                HarmonicBondForce [(0, 1, Finite 1, Finite 5), (1, 2, Finite 1, Finite 5),
                                   (2, 3, Finite 1, Finite 5)],
                HarmonicAngleForce [(0, 1, 2, Finite 2, Finite 6), (1, 2, 3, Finite 2, Finite 6)],
                PeriodicTorsionForce [(0, 1, 2, 3, 3, Finite 0, Finite 0)]]\<rparr>"

text \<open>A System with one torsion whose barrier height is infinite.\<close>

definition rigid_system :: system where
  "rigid_system =
     \<lparr>particles = [12, 12, 12, 12],
      forces = [PeriodicTorsionForce [(0, 1, 2, 3, 3, Finite 0, PlusInfinity)]]\<rparr>"

section \<open>Notions used in the statements\<close>

text \<open>A force whose periodic torsions, if it has any, all have barrier height zero.\<close>

fun zero_barriers :: "force \<Rightarrow> bool" where
  "zero_barriers (PeriodicTorsionForce ts) =
     list_all (\<lambda>(p1, p2, p3, p4, periodicity, phase, K). K = Finite 0) ts"
| "zero_barriers force = True"

text \<open>A force whose periodic torsions, if it has any, all have a finite barrier height.\<close>

fun is_finite :: "pyfloat \<Rightarrow> bool" where
  "is_finite (Finite x) = True"
| "is_finite PlusInfinity = False"
| "is_finite MinusInfinity = False"
| "is_finite NaN = False"

fun finite_barriers :: "force \<Rightarrow> bool" where
  "finite_barriers (PeriodicTorsionForce ts) =
     list_all (\<lambda>(p1, p2, p3, p4, periodicity, phase, K). is_finite K) ts"
| "finite_barriers force = True"

text \<open>The harmonic bond and harmonic angle forces of a System, in order.\<close>

fun is_harmonic :: "force \<Rightarrow> bool" where
  "is_harmonic (HarmonicBondForce bs) = True"
| "is_harmonic (HarmonicAngleForce as) = True"
| "is_harmonic force = False"

definition harmonic_terms :: "system \<Rightarrow> force list" where
  "harmonic_terms system = filter is_harmonic (forces system)"

text \<open>
  A force with the parameters that \<open>modify_force\<close> may multiply by zero blanked out:
  what is left is everything the pass has to preserve.
\<close>

fun frame :: "force \<Rightarrow> force" where
  "frame (NonbondedForce ps xs) =
     NonbondedForce (map (\<lambda>(charge, sigma, epsilon). (Finite 0, sigma, Finite 0)) ps)
                    (map (\<lambda>(p1, p2, chargeProd, sigma, epsilon).
                       (p1, p2, Finite 0, sigma, Finite 0)) xs)"
| "frame (PeriodicTorsionForce ts) =
     PeriodicTorsionForce (map (\<lambda>(p1, p2, p3, p4, periodicity, phase, K).
       (p1, p2, p3, p4, periodicity, phase, Finite 0)) ts)"
| "frame force = force"

text \<open>The barostat force that \<open>modify_forces\<close> appends, if a barostat is configured.\<close>

definition new_barostat :: "('tg, 'ff) system_generator \<Rightarrow> int \<Rightarrow> force list" where
  "new_barostat self seed =
     (case barostat self of
        None \<Rightarrow> []
      | Some b \<Rightarrow> [MonteCarloBarostat (pressure b) (temperature b) (frequency b) seed])"

text \<open>Two atoms are bonded when the topology lists the pair in either order.\<close>

definition bonded :: "topology \<Rightarrow> nat \<Rightarrow> nat \<Rightarrow> bool" where
  "bonded topology a b \<longleftrightarrow> (a, b) \<in> set (bonds topology) \<or> (b, a) \<in> set (bonds topology)"

text \<open>
  The bonds refer to existing atoms only: both indices of every bond are below \<open>n\<close>. A
  topology is valid when its bonds refer to its own atoms.
\<close>

definition in_range :: "nat \<Rightarrow> (nat \<times> nat) list \<Rightarrow> bool" where
  "in_range n bs = list_all (\<lambda>(atom1, atom2). atom1 < n \<and> atom2 < n) bs"

definition valid_topology :: "topology \<Rightarrow> bool" where
  "valid_topology topology = in_range (num_atoms topology) (bonds topology)"

text \<open>The template generators that construct, in the order of the classes.\<close>

fun constructed ::
  "'tg template_generator_cls list \<Rightarrow> string \<Rightarrow> string option \<Rightarrow> 'tg list" where
  "constructed [] name cache = []"
| "constructed (c # cs) name cache =
     (case construct c name cache of
        Inr tg \<Rightarrow> tg # constructed cs name cache
      | Inl e \<Rightarrow> constructed cs name cache)"

text \<open>A class refuses an identifier when its constructor raises \<^verbatim>\<open>ValueError\<close>.\<close>

definition refuses :: "'tg template_generator_cls \<Rightarrow> string \<Rightarrow> string option \<Rightarrow> bool" where
  "refuses c name cache =
     (case construct c name cache of Inl (ValueError e) \<Rightarrow> True | _ \<Rightarrow> False)"

text \<open>
  A class raises no exception other than \<^verbatim>\<open>ValueError\<close> when it is asked for the
  identifier: it constructs, or it refuses.
\<close>

definition no_foreign_error :: "'tg template_generator_cls \<Rightarrow> string \<Rightarrow> string option \<Rightarrow> bool" where
  "no_foreign_error c name cache =
     (case construct c name cache of
        Inr tg \<Rightarrow> True
      | Inl (ValueError e) \<Rightarrow> True
      | Inl e \<Rightarrow> False)"

text \<open>The files named by the argument \<^verbatim>\<open>forcefields\<close>: none when it is \<^verbatim>\<open>None\<close>.\<close>

definition files_of :: "string list option \<Rightarrow> string list" where
  "files_of forcefields = (case forcefields of Some fs \<Rightarrow> fs | None \<Rightarrow> [])"

section \<open>The force-modification pass\<close>

lemma modify_force_all_enabled:
  assumes "particle_charges self" "exception_charges self" "particle_epsilons self"
    "exception_epsilons self" "torsions self"
  shows "modify_force self f = f"
proof (cases f)
  case (NonbondedForce ps xs)
  have "map (modify_particle self) ps = ps"
    using assms by (intro map_idI) (auto simp: modify_particle_def)
  moreover have "map (modify_exception self) xs = xs"
    using assms by (intro map_idI) (auto simp: modify_exception_def)
  ultimately show ?thesis using NonbondedForce by simp
next
  case (PeriodicTorsionForce ts)
  have "map (modify_torsion self) ts = ts"
    using assms by (intro map_idI) (auto simp: modify_torsion_def)
  then show ?thesis using PeriodicTorsionForce by simp
qed simp_all

lemma frame_modify_force: "frame (modify_force self f) = frame f"
  by (cases f) (auto simp: modify_particle_def modify_exception_def modify_torsion_def)

lemma forces_modify_forces:
  "forces (modify_forces self seed system) =
     map (modify_force self) (forces system @ new_barostat self seed)"
  by (simp add: modify_forces_def new_barostat_def split: option.splits)

lemma particles_modify_forces: "particles (modify_forces self seed system) = particles system"
  by (simp add: modify_forces_def split: option.splits)

lemma frame_new_barostat: "map frame (new_barostat self seed) = new_barostat self seed"
  by (simp add: new_barostat_def split: option.splits)

lemma modify_new_barostat:
  "map (modify_force self) (new_barostat self seed) = new_barostat self seed"
  by (simp add: new_barostat_def split: option.splits)

text \<open>
  C10. Whatever the flags, the pass leaves the particles of the System alone, and its forces
  are the old forces, in order, followed by the new barostat if one is configured, where
  each old force differs from its old self at most in particle charges and epsilons,
  exception charge products and epsilons, and torsion barrier heights: every sigma, every
  exception's particle pair, every torsion's four particles, periodicity and phase, the
  number and order of the terms, and every force of another class are as before.
\<close>

theorem modify_forces_frame:
  "map frame (forces (modify_forces self seed system))
     = map frame (forces system) @ new_barostat self seed
   \<and> particles (modify_forces self seed system) = particles system"
  by (simp add: forces_modify_forces particles_modify_forces frame_modify_force
      frame_new_barostat modify_new_barostat)

section \<open>The constructor\<close>

lemma add_molecules_flags:
  assumes "add_molecules env self molecules = Inr self'"
  shows "particle_charges self' = particle_charges self
    \<and> exception_charges self' = exception_charges self
    \<and> particle_epsilons self' = particle_epsilons self
    \<and> exception_epsilons self' = exception_epsilons self
    \<and> torsions self' = torsions self"
  using assms by (auto simp: add_molecules_def split: option.splits sum.splits)

lemma init_Inr_cases:
  assumes "init env forcefields small_molecule_forcefield kwargs_arg barostat_arg molecules cache
             postprocess_arg = Inr self"
  obtains self1 where "add_molecules env self1 molecules = Inr self"
    and "particle_charges self1" "exception_charges self1" "particle_epsilons self1"
      "exception_epsilons self1" "torsions self1"
proof -
  from assms obtain ff where
    ff: "ForceField env (case forcefields of Some fs \<Rightarrow> fs | None \<Rightarrow> []) = Inr ff"
    by (auto simp: init_def split: sum.splits)
  show ?thesis
  proof (cases small_molecule_forcefield)
    case None
    with assms ff that show ?thesis
      by (simp add: init_def)
  next
    case (Some name)
    with assms ff obtain tg where "probe (subclasses env) name cache None = Inr (Some tg)"
      by (auto simp: init_def split: sum.splits option.splits)
    with assms ff Some that show ?thesis
      by (simp add: init_def)
  qed
qed

text \<open>
  C9. A generator that the constructor returns has all five flags set, whatever the
  arguments were; with them set, the force-modification pass changes no force: the forces
  of the System are the old ones, followed by the new barostat if one is configured.
\<close>

theorem init_flags_enabled:
  assumes "init env forcefields small_molecule_forcefield kwargs_arg barostat_arg molecules cache
             postprocess_arg = Inr self"
  shows "particle_charges self \<and> exception_charges self \<and> particle_epsilons self
         \<and> exception_epsilons self \<and> torsions self
         \<and> forces (modify_forces self seed system) = forces system @ new_barostat self seed"
proof -
  from assms obtain self1 where "add_molecules env self1 molecules = Inr self"
    and "particle_charges self1" "exception_charges self1" "particle_epsilons self1"
      "exception_epsilons self1" "torsions self1"
    by (rule init_Inr_cases)
  then have flags: "particle_charges self \<and> exception_charges self \<and> particle_epsilons self
         \<and> exception_epsilons self \<and> torsions self"
    using add_molecules_flags [of env self1 molecules self] by simp
  then have "map (modify_force self) fs = fs" for fs
    by (intro map_idI) (simp add: modify_force_all_enabled)
  then show ?thesis using flags by (simp add: forces_modify_forces)
qed

theorem init_flags_enabled_witness:
  "init (example_env [GAFFTemplateGenerator, SMIRNOFFTemplateGenerator])
         (Some [''amber/protein.ff14SB.xml'']) (Some ''gaff-2.11'') None None (Some [''CCO''])
         None None = Inr gaff_generator
   \<and> particle_charges gaff_generator \<and> exception_charges gaff_generator
   \<and> particle_epsilons gaff_generator \<and> exception_epsilons gaff_generator
   \<and> torsions gaff_generator
   \<and> forces (modify_forces gaff_generator 0 example_system) = forces example_system"
proof -
  have h: "init (example_env [GAFFTemplateGenerator, SMIRNOFFTemplateGenerator])
         (Some [''amber/protein.ff14SB.xml'']) (Some ''gaff-2.11'') None None (Some [''CCO''])
         None None = Inr gaff_generator"
    by (simp add: init_def example_env_def example_env_with_def example_ForceField_def
      known_files_def GAFFTemplateGenerator_def SMIRNOFFTemplateGenerator_def
      example_cls_def add_molecules_def gaff_generator_def)
  have "new_barostat gaff_generator 0 = []"
    by (simp add: new_barostat_def gaff_generator_def)
  then show ?thesis
    using h init_flags_enabled [OF h, of 0 example_system] by simp
qed

text \<open>
  C3. With no small-molecule force field requested, the probing of lines 161--175 is
  skipped and \<^verbatim>\<open>template_generator\<close> stays \<^verbatim>\<open>None\<close>; line 178 then calls
  \<^verbatim>\<open>add_molecules\<close>, which raises because no template generator is registered. For
  every choice of the other arguments, with or without molecules, the constructor raises:
  the Engine's exception when the force-field files do not load, and otherwise the
  \<^verbatim>\<open>ValueError\<close> of \<^verbatim>\<open>add_molecules\<close>. It never returns a generator.
\<close>

theorem init_without_forcefield_raises:
  "init env forcefields None kwargs_arg barostat_arg molecules cache postprocess_arg =
     (case ForceField env (files_of forcefields) of
        Inl e \<Rightarrow> Inl e
      | Inr ff \<Rightarrow> Inl (ValueError
          ''You must have a small molecule residue template generator registered to add small molecules''))
   \<and> init env forcefields None kwargs_arg barostat_arg molecules cache postprocess_arg \<noteq> Inr self"
  by (simp add: init_def add_molecules_def files_of_def split: sum.splits)

subsection \<open>Probing the template generator classes\<close>

lemma append_installed_concat:
  "append_installed clss msg = msg @ concat (map installed_line clss)"
  by (induction clss arbitrary: msg) simp_all

lemma probe_refused:
  "list_all (\<lambda>c. refuses c name cache) clss \<Longrightarrow> probe clss name cache tg = Inr tg"
  by (induction clss arbitrary: tg)
    (auto simp: refuses_def split: sum.splits error.splits)

lemma probe_last_constructed:
  "list_all (\<lambda>c. no_foreign_error c name cache) clss \<Longrightarrow>
   probe clss name cache tg =
     Inr (if constructed clss name cache = [] then tg else Some (last (constructed clss name cache)))"
  by (induction clss arbitrary: tg)
    (auto simp: no_foreign_error_def split: sum.splits error.splits)

lemma sublist_installed_line:
  "c \<in> set clss \<Longrightarrow> sublist (installed_line c) (msg @ concat (map installed_line clss))"
proof (induction clss arbitrary: msg)
  case Nil
  then show ?case by simp
next
  case (Cons a clss)
  show ?case
  proof (cases "c = a")
    case True
    have "sublist (installed_line a) (msg @ installed_line a @ concat (map installed_line clss))"
      by (rule sublist_appendI)
    with True show ?thesis by simp
  next
    case False
    with Cons.prems have "c \<in> set clss" by simp
    from Cons.IH [OF this, of "msg @ installed_line a"] show ?thesis by simp
  qed
qed

lemma sublist_join_comma: "s \<in> set xs \<Longrightarrow> sublist s (join_comma xs)"
proof (induction xs rule: join_comma.induct)
  case 1
  then show ?case by simp
next
  case (2 s')
  then show ?case by simp
next
  case (3 s' t ts)
  show ?case
  proof (cases "s = s'")
    case True
    have "sublist s' ([] @ s' @ ('', '' @ join_comma (t # ts)))"
      by (rule sublist_appendI)
    with True show ?thesis by simp
  next
    case False
    with 3 have "sublist s (join_comma (t # ts))" by simp
    then have "sublist s ((s' @ '', '') @ join_comma (t # ts))"
      by (simp only: sublist_append) simp
    then show ?thesis by simp
  qed
qed

lemma sublist_identifier:
  assumes "f \<in> set (INSTALLED_FORCEFIELDS c)"
  shows "sublist (repr_str f) (installed_line c)"
proof -
  have "repr_str f \<in> set (map repr_str (INSTALLED_FORCEFIELDS c))"
    using assms by simp
  then have "sublist (repr_str f) (join_comma (map repr_str (INSTALLED_FORCEFIELDS c)))"
    by (rule sublist_join_comma)
  then have "sublist (repr_str f)
      ((''  '' @ cls_name c @ '': '' @ ''['')
        @ join_comma (map repr_str (INSTALLED_FORCEFIELDS c)) @ ('']'' @ newline))"
    by (simp only: sublist_append) simp
  then show ?thesis by (simp add: installed_line_def str_list_def)
qed

lemma no_generator_msg_lines:
  "no_generator_msg clss name =
     ''No registered small molecule template generators could load force field ''
       @ [CHR 0x27] @ name @ [CHR 0x27] @ newline
       @ ''Available installed force fields are:'' @ newline
       @ concat (map (\<lambda>c. ''  '' @ cls_name c @ '': '' @ str_list (INSTALLED_FORCEFIELDS c)
                            @ newline) clss)"
  unfolding no_generator_msg_def append_installed_concat installed_line_def
  by simp

lemma repr_str_plain: "repr_str ''gaff-2.11'' = [CHR 0x27] @ ''gaff-2.11'' @ [CHR 0x27]"
  by (simp add: repr_str_def escape_def printable_def Let_def)

lemma typo_msg_eq:
  "no_generator_msg [GAFFTemplateGenerator, SMIRNOFFTemplateGenerator] ''gaff-3.0'' = typo_msg"
  by (simp add: GAFFTemplateGenerator_def SMIRNOFFTemplateGenerator_def
      example_cls_def no_generator_msg_def installed_line_def str_list_def repr_str_def
      escape_def printable_def Let_def typo_msg_def)

lemma example_refuses:
  "list_all (\<lambda>c. refuses c ''gaff-3.0'' None)
     (subclasses (example_env [GAFFTemplateGenerator, SMIRNOFFTemplateGenerator]))"
  by (simp add: example_env_def example_env_with_def GAFFTemplateGenerator_def
      SMIRNOFFTemplateGenerator_def example_cls_def refuses_def)

text \<open>
  C4 as stated does not hold: the ForceField object is built before the classes are probed.
  For a force-field file that the Engine cannot find and an identifier that every class
  refuses, the constructor raises the Engine's error, whose message lists no class and no
  identifier, and not the listing message.
\<close>

theorem missing_file_counterexample:
  "list_all (\<lambda>c. refuses c ''gaff-3.0'' None)
     (subclasses (example_env [GAFFTemplateGenerator, SMIRNOFFTemplateGenerator]))
   \<and> init (example_env [GAFFTemplateGenerator, SMIRNOFFTemplateGenerator])
        (Some [''missing.xml'']) (Some ''gaff-3.0'') None None None None None
       = Inl (ValueError missing_file_msg)
   \<and> missing_file_msg \<noteq> typo_msg
   \<and> typo_msg =
       no_generator_msg
         (subclasses (example_env [GAFFTemplateGenerator, SMIRNOFFTemplateGenerator])) ''gaff-3.0''"
proof -
  have "init (example_env [GAFFTemplateGenerator, SMIRNOFFTemplateGenerator])
        (Some [''missing.xml'']) (Some ''gaff-3.0'') None None None None None
       = Inl (ValueError missing_file_msg)"
    by (simp add: init_def example_env_def example_env_with_def example_ForceField_def
        known_files_def missing_file_msg_def)
  moreover have "missing_file_msg \<noteq> typo_msg"
    by (simp add: missing_file_msg_def typo_msg_def)
  moreover have "typo_msg = no_generator_msg
         (subclasses (example_env [GAFFTemplateGenerator, SMIRNOFFTemplateGenerator])) ''gaff-3.0''"
    by (simp add: typo_msg_eq example_env_def example_env_with_def)
  ultimately show ?thesis using example_refuses by simp
qed

text \<open>
  C4, amended. When the force-field files load and every template generator class refuses
  the requested identifier (its constructor raises \<^verbatim>\<open>ValueError\<close>), the constructor of the
  generator raises \<^verbatim>\<open>ValueError\<close> with the message of lines 170--173: the two header lines,
  then one line per class, in order, with the name of the class and its
  \<^verbatim>\<open>INSTALLED_FORCEFIELDS\<close>. The line of every class is part of the message, and it holds
  the name of the class and each of its identifiers as Python prints it.
\<close>

theorem unsupported_identifier_raises:
  fixes env :: "('tg, 'ff) collaborators"
  assumes "ForceField env (files_of forcefields) = Inr ff"
    and "list_all (\<lambda>c. refuses c name cache) (subclasses env)"
  shows "init env forcefields (Some name) kwargs_arg barostat_arg molecules cache postprocess_arg
           = Inl (ValueError (no_generator_msg (subclasses env) name))
    \<and> no_generator_msg (subclasses env) name =
        ''No registered small molecule template generators could load force field ''
          @ [CHR 0x27] @ name @ [CHR 0x27] @ newline
          @ ''Available installed force fields are:'' @ newline
          @ concat (map (\<lambda>c. ''  '' @ cls_name c @ '': '' @ str_list (INSTALLED_FORCEFIELDS c)
                               @ newline) (subclasses env))
    \<and> list_all (\<lambda>c. sublist (installed_line c) (no_generator_msg (subclasses env) name)
                  \<and> sublist (cls_name c) (installed_line c)
                  \<and> list_all (\<lambda>f. sublist (repr_str f) (installed_line c))
                       (INSTALLED_FORCEFIELDS c))
        (subclasses env)"
proof -
  have "probe (subclasses env) name cache None = Inr None"
    using assms(2) by (rule probe_refused)
  with assms(1) have 1: "init env forcefields (Some name) kwargs_arg barostat_arg molecules cache
      postprocess_arg = Inl (ValueError (no_generator_msg (subclasses env) name))"
    by (simp add: init_def files_of_def)
  have 3: "sublist (installed_line c) (no_generator_msg (subclasses env) name)"
    if "c \<in> set (subclasses env)" for c
    unfolding no_generator_msg_def append_installed_concat
    using that by (rule sublist_installed_line)
  have 4: "sublist (cls_name c) (installed_line c)" for c :: "'tg template_generator_cls"
    unfolding installed_line_def by (rule sublist_appendI)
  have 5: "list_all (\<lambda>f. sublist (repr_str f) (installed_line c)) (INSTALLED_FORCEFIELDS c)"
    for c :: "'tg template_generator_cls"
    by (simp add: list_all_iff sublist_identifier)
  from 1 no_generator_msg_lines [of "subclasses env" name] 3 4 5 show ?thesis
    by (simp add: list_all_iff)
qed

theorem unsupported_identifier_raises_witness:
  "ForceField (example_env [GAFFTemplateGenerator, SMIRNOFFTemplateGenerator])
       (files_of (Some [''amber/protein.ff14SB.xml''])) = Inr [''amber/protein.ff14SB.xml'']
   \<and> list_all (\<lambda>c. refuses c ''gaff-3.0'' None)
     (subclasses (example_env [GAFFTemplateGenerator, SMIRNOFFTemplateGenerator]))
   \<and> init (example_env [GAFFTemplateGenerator, SMIRNOFFTemplateGenerator])
        (Some [''amber/protein.ff14SB.xml'']) (Some ''gaff-3.0'') None None None None None
       = Inl (ValueError typo_msg)"
proof -
  have f: "ForceField (example_env [GAFFTemplateGenerator, SMIRNOFFTemplateGenerator])
       (files_of (Some [''amber/protein.ff14SB.xml''])) = Inr [''amber/protein.ff14SB.xml'']"
    by (simp add: example_env_def example_env_with_def example_ForceField_def known_files_def
        files_of_def)
  have m: "no_generator_msg
      (subclasses (example_env [GAFFTemplateGenerator, SMIRNOFFTemplateGenerator])) ''gaff-3.0''
      = typo_msg"
    by (simp add: typo_msg_eq example_env_def example_env_with_def)
  from unsupported_identifier_raises [OF f example_refuses, of None None None None] f
    example_refuses m
  show ?thesis by simp
qed

text \<open>
  C5. When the force-field files load, so that the classes are probed, and at least one
  class constructs for the identifier while the others refuse it, the loop tries every
  class and leaves in \<^verbatim>\<open>self.template_generator\<close> the last constructed instance in the order
  of the classes, not the first; the constructor then returns the generator with that
  instance installed, after it has been told about the molecules.
\<close>

theorem last_constructed_installed:
  fixes env :: "('tg, 'ff) collaborators"
  assumes "ForceField env (files_of forcefields) = Inr ff"
    and "list_all (\<lambda>c. no_foreign_error c name cache) (subclasses env)"
    and "constructed (subclasses env) name cache \<noteq> []"
  shows "probe (subclasses env) name cache None
           = Inr (Some (last (constructed (subclasses env) name cache)))
    \<and> init env forcefields (Some name) kwargs_arg barostat_arg molecules cache postprocess_arg =
        (case tg_add_molecules env (last (constructed (subclasses env) name cache)) molecules of
           Inl e \<Rightarrow> Inl e
         | Inr tg' \<Rightarrow>
             Inr \<lparr>barostat = barostat_arg,
                  particle_charges = True,
                  exception_charges = True,
                  particle_epsilons = True,
                  exception_epsilons = True,
                  torsions = True,
                  postprocess_system = postprocess_arg,
                  forcefield = ff,
                  forcefield_kwargs = (case kwargs_arg of Some kw \<Rightarrow> kw | None \<Rightarrow> []),
                  template_generator = Some tg'\<rparr>)"
proof -
  have p: "probe (subclasses env) name cache None
      = Inr (Some (last (constructed (subclasses env) name cache)))"
    using probe_last_constructed [OF assms(2), of None] assms(3) by simp
  with assms(1) show ?thesis
    by (simp add: init_def add_molecules_def files_of_def split: sum.splits)
qed

theorem last_constructed_installed_witness:
  "ForceField (example_env three_classes) (files_of None) = Inr []
   \<and> list_all (\<lambda>c. no_foreign_error c ''ff-b'' None) (subclasses (example_env three_classes))
   \<and> constructed (subclasses (example_env three_classes)) ''ff-b'' None =
       [\<lparr>tg_cls = ''FirstGenerator'', tg_forcefield = ''ff-b'', tg_cache = None, tg_molecules = []\<rparr>,
        \<lparr>tg_cls = ''ThirdGenerator'', tg_forcefield = ''ff-b'', tg_cache = None, tg_molecules = []\<rparr>]
   \<and> init (example_env three_classes) None (Some ''ff-b'') None None None None None =
       Inr (example_generator\<lparr>forcefield := [], template_generator :=
         Some \<lparr>tg_cls = ''ThirdGenerator'', tg_forcefield = ''ff-b'', tg_cache = None,
               tg_molecules = []\<rparr>\<rparr>)"
proof -
  have h0: "ForceField (example_env three_classes) (files_of None) = Inr []"
    by (simp add: example_env_def example_env_with_def example_ForceField_def files_of_def)
  have h1: "list_all (\<lambda>c. no_foreign_error c ''ff-b'' None)
      (subclasses (example_env three_classes))"
    by (simp add: example_env_def example_env_with_def three_classes_def example_cls_def
        no_foreign_error_def)
  have c: "constructed (subclasses (example_env three_classes)) ''ff-b'' None =
       [\<lparr>tg_cls = ''FirstGenerator'', tg_forcefield = ''ff-b'', tg_cache = None, tg_molecules = []\<rparr>,
        \<lparr>tg_cls = ''ThirdGenerator'', tg_forcefield = ''ff-b'', tg_cache = None, tg_molecules = []\<rparr>]"
    by (simp add: example_env_def example_env_with_def three_classes_def example_cls_def)
  then have h2: "constructed (subclasses (example_env three_classes)) ''ff-b'' None \<noteq> []"
    by simp
  have a: "tg_add_molecules (example_env three_classes) tg None = Inr tg" for tg
    by (simp add: example_env_def example_env_with_def)
  from last_constructed_installed [OF h0 h1 h2, of None None None None] h0 h1 c a
  show ?thesis by (simp add: example_generator_def)
qed

section \<open>What DummySystemGenerator.create\_system returns\<close>

lemma bondedToAtom_chain4: "bondedToAtom chain4 = Inr chain4_neighbours"
  by (simp add: bondedToAtom_def chain4_def chain4_neighbours_def numeral_eq_Suc insert_commute)

lemma bondedToAtom_chain4_reversed: "bondedToAtom chain4_reversed = Inr chain4_neighbours"
  by (simp add: bondedToAtom_def chain4_reversed_def chain4_neighbours_def numeral_eq_Suc
      insert_commute)

text \<open>
  C1. The call does not return a System. In the module as it stands the global \<^verbatim>\<open>unit\<close>
  is unbound and the call raises \<^verbatim>\<open>NameError\<close> at line 323; with \<^verbatim>\<open>unit\<close> and
  \<^verbatim>\<open>openmm\<close> bound it returns at line 349 the list of neighbour sets, for the chain
  \<open>[{1}, {0, 2}, {1, 3}, {2}]\<close>. Whatever the namespace and the topology, the value returned
  is never a System.
\<close>

theorem dummy_create_system_returns_neighbours:
  "dummy_create_system module_globals chain4 = Inl (NameError ''unit'')
   \<and> dummy_create_system (module_globals \<union> {''unit'', ''openmm''}) chain4
       = Inr (BondedToAtom chain4_neighbours)
   \<and> dummy_create_system globals topology \<noteq> Inr (System system)"
proof -
  have "dummy_create_system module_globals chain4 = Inl (NameError ''unit'')"
    by (simp add: dummy_create_system_def module_globals_def)
  moreover have "dummy_create_system (module_globals \<union> {''unit'', ''openmm''}) chain4
       = Inr (BondedToAtom chain4_neighbours)"
    by (simp add: dummy_create_system_def module_globals_def bondedToAtom_chain4)
  moreover have "dummy_create_system globals topology \<noteq> Inr (System system)"
    by (simp add: dummy_create_system_def split: sum.splits)
  ultimately show ?thesis by simp
qed

text \<open>
  C7. For the chain 0--1--2--3 the call enumerates no angle and no proper torsion: with
  \<^verbatim>\<open>unit\<close> and \<^verbatim>\<open>openmm\<close> bound it returns the neighbour sets
  \<open>[{1}, {0, 2}, {1, 3}, {2}]\<close> at line 349, whichever way round and in whichever order the
  three bonds are listed, and in the module as it stands it raises \<^verbatim>\<open>NameError\<close>. The
  enumerations of lines 361--399 are not reached.
\<close>

theorem chain4_stops_at_neighbours:
  "dummy_create_system bound_globals chain4 = Inr (BondedToAtom chain4_neighbours)
   \<and> dummy_create_system bound_globals chain4_reversed = Inr (BondedToAtom chain4_neighbours)
   \<and> dummy_create_system module_globals chain4_reversed = Inl (NameError ''unit'')"
  by (simp add: dummy_create_system_def bound_globals_def module_globals_def
      bondedToAtom_chain4 bondedToAtom_chain4_reversed)

lemma in_range_Cons [simp]:
  "in_range n ((a, b) # bs) \<longleftrightarrow> a < n \<and> b < n \<and> in_range n bs"
  by (simp add: in_range_def)

lemma in_range_Nil [simp]: "in_range n []"
  by (simp add: in_range_def)

lemma in_rangeD: "in_range n bs \<Longrightarrow> (a, b) \<in> set bs \<Longrightarrow> a < n \<and> b < n"
  by (auto simp: in_range_def list_all_iff)

lemma add_bonds_neighbours:
  "in_range (length adj) bs \<Longrightarrow>
   \<exists>adj'. add_bonds bs adj = Inr adj' \<and> length adj' = length adj
     \<and> (\<forall>i < length adj. adj' ! i = adj ! i \<union> {j. (i, j) \<in> set bs \<or> (j, i) \<in> set bs})"
proof (induction bs arbitrary: adj)
  case Nil
  then show ?case by simp
next
  case (Cons bond bs)
  obtain a b where bond: "bond = (a, b)" by (cases bond)
  let ?adj2 = "adj[a := insert b (adj ! a), b := insert a ((adj[a := insert b (adj ! a)]) ! b)]"
  from Cons.prems bond have ab: "a < length adj" "b < length adj" and r: "in_range (length ?adj2) bs"
    by simp_all
  from Cons.IH [OF r] obtain adj' where
    1: "add_bonds bs ?adj2 = Inr adj'" and 2: "length adj' = length adj"
    and 3: "\<forall>i < length adj. adj' ! i = ?adj2 ! i \<union> {j. (i, j) \<in> set bs \<or> (j, i) \<in> set bs}"
    by auto
  have 4: "?adj2 ! i = adj ! i \<union> {j. (i, j) = (a, b) \<or> (j, i) = (a, b)}" if "i < length adj" for i
    using that ab by (auto simp: nth_list_update)
  have "add_bonds (bond # bs) adj = Inr adj'"
    using 1 ab bond by (simp add: Let_def)
  moreover have "adj' ! i = adj ! i \<union> {j. (i, j) \<in> set (bond # bs) \<or> (j, i) \<in> set (bond # bs)}"
    if "i < length adj" for i
    using 3 4 [OF that] that bond by auto
  ultimately show ?case using 2 by blast
qed

lemma bondedToAtom_neighbours:
  assumes "valid_topology topology"
  shows "\<exists>adj. bondedToAtom topology = Inr adj \<and> length adj = num_atoms topology
    \<and> (\<forall>i < num_atoms topology. adj ! i = {j. bonded topology i j})"
proof -
  from assms have "in_range (length (replicate (num_atoms topology) ({}::nat set))) (bonds topology)"
    by (simp add: valid_topology_def)
  from add_bonds_neighbours [OF this] show ?thesis
    by (auto simp: bondedToAtom_def bonded_def)
qed

text \<open>
  C6. For every valid topology the call enumerates no angle. It raises \<^verbatim>\<open>NameError\<close> when
  \<^verbatim>\<open>unit\<close> or \<^verbatim>\<open>openmm\<close> is unbound, as in the module as it stands; otherwise it returns at
  line 349 the list that holds for every atom the set of the atoms bonded to it, and
  nothing else. For the ring of three atoms, which has three angles, the value returned is
  \<open>[{1, 2}, {0, 2}, {0, 1}]\<close>.
\<close>

theorem valid_topology_stops_at_neighbours:
  assumes "valid_topology topology"
  shows "dummy_create_system globals topology =
     (if ''unit'' \<notin> globals then Inl (NameError ''unit'')
      else if ''openmm'' \<notin> globals then Inl (NameError ''openmm'')
      else Inr (BondedToAtom (map (\<lambda>i. {j. bonded topology i j}) [0..<num_atoms topology])))"
proof -
  from bondedToAtom_neighbours [OF assms] obtain adj where
    b: "bondedToAtom topology = Inr adj" and l: "length adj = num_atoms topology"
    and n: "\<forall>i < num_atoms topology. adj ! i = {j. bonded topology i j}"
    by blast
  have "adj = map (\<lambda>i. {j. bonded topology i j}) [0..<num_atoms topology]"
    using l n by (intro nth_equalityI) simp_all
  with b show ?thesis
    by (simp add: dummy_create_system_def)
qed

lemma ring3_bonded:
  "map (\<lambda>i. {j. bonded ring3 i j}) [0..<num_atoms ring3] = [{1, 2}, {0, 2}, {0, 1}]"
  by (auto simp: ring3_def bonded_def upt_rec numeral_eq_Suc)

theorem valid_topology_stops_at_neighbours_witness:
  "valid_topology ring3
   \<and> dummy_create_system module_globals ring3 = Inl (NameError ''unit'')
   \<and> dummy_create_system bound_globals ring3 = Inr (BondedToAtom [{1, 2}, {0, 2}, {0, 1}])"
proof -
  have h: "valid_topology ring3"
    by (simp add: valid_topology_def ring3_def)
  have 1: "''unit'' \<notin> module_globals"
    by (simp add: module_globals_def)
  have 2: "''unit'' \<in> bound_globals" "''openmm'' \<in> bound_globals"
    by (simp_all add: bound_globals_def)
  from valid_topology_stops_at_neighbours [OF h, of module_globals]
    valid_topology_stops_at_neighbours [OF h, of bound_globals] h 1 2
  show ?thesis by (simp add: ring3_bonded)
qed

section \<open>SystemGenerator.create\_system\<close>

text \<open>
  C2 as stated does not hold: with no template generator installed and a molecule supplied,
  the call raises nothing and returns the Engine's System.
\<close>

theorem molecules_ignored_counterexample:
  "template_generator example_generator = None
   \<and> create_system (example_env []) example_generator 0 chain4 (Some [''CCO''])
       = (Inr example_system, example_generator)"
  by (simp add: create_system_def example_env_def example_env_with_def example_generator_def
      modify_forces_def example_system_def modify_particle_def modify_exception_def
      modify_torsion_def)

text \<open>
  C2, amended. While no template generator is installed, molecules supplied to
  \<^verbatim>\<open>create_system\<close> are passed to nobody and raise no error: the call returns what the
  same call without molecules returns, and it leaves the generator as it was.
\<close>

theorem molecules_ignored_without_generator:
  assumes "template_generator self = None"
  shows "create_system env self seed topology molecules = create_system env self seed topology None
    \<and> snd (create_system env self seed topology molecules) = self"
  using assms by (simp add: create_system_def Let_def split: sum.splits option.splits)

theorem molecules_ignored_without_generator_witness:
  "template_generator example_generator = None
   \<and> create_system (example_env []) example_generator 0 chain4 (Some [''CCO''])
       = create_system (example_env []) example_generator 0 chain4 None
   \<and> snd (create_system (example_env []) example_generator 0 chain4 (Some [''CCO'']))
       = example_generator"
proof -
  have h: "template_generator example_generator = None"
    by (simp add: example_generator_def)
  from molecules_ignored_without_generator [OF h, of "example_env []" 0 chain4 "Some [''CCO'']"] h
  show ?thesis by blast
qed

lemma is_harmonic_modify_force: "is_harmonic (modify_force self f) = is_harmonic f"
  by (cases f) simp_all

lemma modify_force_harmonic: "is_harmonic f \<Longrightarrow> modify_force self f = f"
  by (cases f) simp_all

lemma filter_harmonic_modify:
  "filter is_harmonic (map (modify_force self) fs) = filter is_harmonic fs"
  by (induction fs) (auto simp: is_harmonic_modify_force modify_force_harmonic)

lemma harmonic_terms_modify_forces:
  "harmonic_terms (modify_forces self seed system) = harmonic_terms system"
  by (simp add: harmonic_terms_def forces_modify_forces filter_harmonic_modify new_barostat_def
      split: option.splits)

lemma create_system_state:
  assumes "create_system env self seed topology molecules = (r, self')"
  shows "torsions self' = torsions self \<and> postprocess_system self' = postprocess_system self
    \<and> forcefield self' = forcefield self \<and> forcefield_kwargs self' = forcefield_kwargs self
    \<and> barostat self' = barostat self"
  using assms
  by (auto simp: create_system_def Let_def split: sum.splits option.splits prod.splits)

lemma times_zero_zero: "times_zero K = Finite 0 \<longleftrightarrow> is_finite K"
  by (cases K) simp_all

lemma zero_barriers_modify_force:
  "\<not> torsions self \<Longrightarrow> zero_barriers (modify_force self f) \<longleftrightarrow> finite_barriers f"
  by (cases f) (auto simp: list_all_iff modify_torsion_def times_zero_zero)

lemma zero_barriers_modify_forces:
  assumes "\<not> torsions self"
  shows "list_all zero_barriers (forces (modify_forces self seed system))
    \<longleftrightarrow> list_all finite_barriers (forces system)"
proof -
  have "list_all zero_barriers (map (modify_force self) fs) \<longleftrightarrow> list_all finite_barriers fs"
    for fs
    using assms by (induction fs) (simp_all add: zero_barriers_modify_force)
  moreover have "list_all finite_barriers (new_barostat self seed)"
    by (simp add: new_barostat_def split: option.splits)
  ultimately show ?thesis
    by (simp add: forces_modify_forces)
qed

text \<open>
  C8 as stated does not hold, on two counts. The finishing hook runs after the
  force-modification pass, and the System it returns is the one \<^verbatim>\<open>create_system\<close> returns:
  with the torsion flag off and a hook that sets barrier heights to 1, the returned torsion
  has barrier height 1. And the pass multiplies the barrier height by zero: with the flag
  off and no hook, a torsion that the Engine assembled with an infinite barrier height is
  returned with the barrier height NaN.
\<close>

theorem torsions_disabled_counterexample:
  "\<not> torsions hooked_generator
   \<and> fst (create_system (example_env []) hooked_generator 0 chain4 None)
       = Inr \<lparr>particles = [12, 12, 12, 12],
              forces = [NonbondedForce [(Finite 1, Finite 2, Finite 3),
                                        (Finite (-1), Finite 2, Finite 3)]
                                       [(0, 3, Finite (-1), Finite 2, Finite 3)],
                        HarmonicBondForce [(0, 1, Finite 1, Finite 5), (1, 2, Finite 1, Finite 5),
                                           (2, 3, Finite 1, Finite 5)],
                        HarmonicAngleForce [(0, 1, 2, Finite 2, Finite 6),
                                            (1, 2, 3, Finite 2, Finite 6)],
                        PeriodicTorsionForce [(0, 1, 2, 3, 3, Finite 0, Finite 1)]]\<rparr>
   \<and> \<not> torsions ablated_generator \<and> postprocess_system ablated_generator = None
   \<and> fst (create_system (example_env_with [] rigid_system) ablated_generator 0 chain4 None)
       = Inr \<lparr>particles = [12, 12, 12, 12],
              forces = [PeriodicTorsionForce [(0, 1, 2, 3, 3, Finite 0, NaN)]]\<rparr>"
  by (simp add: create_system_def example_env_def example_env_with_def example_generator_def
      modify_forces_def example_system_def modify_particle_def modify_exception_def
      modify_torsion_def hooked_generator_def ablated_generator_def example_hook_def
      rigid_system_def)

text \<open>
  C8, amended. With the torsion flag off and no finishing hook configured, the periodic
  torsions of a System that \<^verbatim>\<open>create_system\<close> returns all have barrier height zero exactly
  when the barrier heights that the Engine assembled are all finite; and its harmonic bond
  and angle forces are those of the System the Engine assembled. The generator after the
  call still has the flag off and no hook, so the same holds of the next call.
\<close>

theorem torsions_disabled_without_hook:
  assumes "\<not> torsions self" and "postprocess_system self = None"
    and "create_system env self seed topology molecules = (Inr system, self')"
  shows "(\<exists>system0. createSystem env (forcefield self) (template_generator self') topology
                    (forcefield_kwargs self) = Inr system0
          \<and> (list_all zero_barriers (forces system)
               \<longleftrightarrow> list_all finite_barriers (forces system0))
          \<and> harmonic_terms system = harmonic_terms system0)
    \<and> \<not> torsions self' \<and> postprocess_system self' = None"
proof -
  have st: "\<not> torsions self' \<and> postprocess_system self' = None"
    using create_system_state [OF assms(3)] assms(1,2) by simp
  from assms(2,3) obtain system0 where
    e: "createSystem env (forcefield self) (template_generator self') topology
          (forcefield_kwargs self) = Inr system0"
    and s: "system = modify_forces self' seed system0"
    by (auto simp: create_system_def Let_def split: sum.splits option.splits prod.splits)
  show ?thesis
    using st e s by (simp add: zero_barriers_modify_forces harmonic_terms_modify_forces)
qed

theorem torsions_disabled_without_hook_witness:
  "\<not> torsions ablated_generator \<and> postprocess_system ablated_generator = None
   \<and> create_system (example_env []) ablated_generator 0 chain4 None
       = (Inr ablated_system, ablated_generator)
   \<and> list_all finite_barriers (forces example_system)
   \<and> list_all zero_barriers (forces ablated_system)
   \<and> harmonic_terms ablated_system = harmonic_terms example_system"
proof -
  have h1: "\<not> torsions ablated_generator"
    by (simp add: ablated_generator_def)
  have h2: "postprocess_system ablated_generator = None"
    by (simp add: ablated_generator_def example_generator_def)
  have h3: "create_system (example_env []) ablated_generator 0 chain4 None
       = (Inr ablated_system, ablated_generator)"
    by (simp add: create_system_def example_env_def example_env_with_def example_generator_def
      modify_forces_def example_system_def modify_particle_def modify_exception_def
      modify_torsion_def ablated_generator_def ablated_system_def)
  have e: "createSystem (example_env []) ff tg topology kw = Inr example_system"
    for ff tg topology kw
    by (simp add: example_env_def example_env_with_def)
  have f: "list_all finite_barriers (forces example_system)"
    by (simp add: example_system_def)
  from torsions_disabled_without_hook [OF h1 h2 h3] h1 h2 h3 e f
  show ?thesis by simp
qed

end
